theory Spec2Isabelle
  imports Complex_Main "HOL-Library.AList"
begin

section \<open>Values of the program\<close>

text \<open>
  The backend of \<^verbatim>\<open>main.py\<close> has three request handlers that matter here:
  \<^verbatim>\<open>generate_video\<close>, its helper \<^verbatim>\<open>wait_for_video_completion\<close> and
  \<^verbatim>\<open>serve_video\<close>. They talk to an upstream HTTP service, read the clock, sleep
  and touch the local file system. All of that is made explicit below: the upstream
  service and the library functions are a record of parameters (\<open>env\<close>), the clock,
  the issued requests and the files are a record of state (\<open>world\<close>), and every
  Python exception is a value.

  Python \<^verbatim>\<open>bytes\<close> are lists of characters (a \<open>char\<close> is one byte), Python
  \<^verbatim>\<open>float\<close> seconds are idealised as real numbers.
\<close>

type_synonym bytes = string

text \<open>The value \<^verbatim>\<open>response.json()\<close> returns: a parsed JSON document.\<close>

datatype json =
    JNull
  | JBool bool
  | JNum real
  | JStr string
  | JArr "json list"
  | JObj "(string \<times> json) list"

type_synonym pydict = "(string \<times> json) list"

text \<open>\<^verbatim>\<open>d.get(key, default)\<close> on a dictionary.\<close>

definition dict_get :: "pydict \<Rightarrow> string \<Rightarrow> json \<Rightarrow> json" where
  "dict_get d k dflt = (case map_of d k of None \<Rightarrow> dflt | Some v \<Rightarrow> v)"

text \<open>Python truthiness of a JSON value (\<^verbatim>\<open>if not video_id\<close>).\<close>

fun truthy :: "json \<Rightarrow> bool" where
  "truthy JNull = False"
| "truthy (JBool b) = b"
| "truthy (JNum x) = (x \<noteq> 0)"
| "truthy (JStr s) = (s \<noteq> [])"
| "truthy (JArr xs) = (xs \<noteq> [])"
| "truthy (JObj d) = (d \<noteq> [])"

text \<open>
  The exceptions that can leave the handlers. \<open>HTTPException\<close> is the one the source
  raises itself (status code and detail); the others are raised by the libraries the
  source calls: a transport failure of \<^verbatim>\<open>httpx\<close>, a body that is not JSON,
  \<^verbatim>\<open>.get\<close> on a value that is not a dictionary, bytes that are not UTF-8, a system
  call that fails (with its error number), a path string with a null byte in it, and the
  framework's refusal to send something that is not a regular file.
\<close>

datatype errno = ENOENT | ENOTDIR | EISDIR | ENAMETOOLONG

datatype py_exception =
    HTTPException int string
  | RequestError string
  | JSONDecodeError
  | AttributeError
  | UnicodeDecodeError
  | OSError errno
  | ValueError
  | RuntimeError

record response =
  status_code :: int
  body_text :: string
  body_json :: "json option"

datatype reply = TransportError string | Response response

text \<open>
  A streamed response (\<^verbatim>\<open>client.stream\<close>): its status, the chunks
  \<^verbatim>\<open>aiter_bytes\<close> yields, and the failure that ends the stream early, if any.
\<close>

record stream_response =
  stream_status :: int
  chunks :: "bytes list"
  stream_failure :: "string option"

datatype stream_reply = StreamTransportError string | StreamResponse stream_response

type_synonym headers = "(string \<times> string) list"

datatype event =
    Post string headers "(string \<times> string) list"
  | Get string headers
  | Stream string headers
  | Sleep real

datatype node = File bytes | Dir

text \<open>
  What the program does not define itself: the configured credential, the upstream
  service (the reply to the creation request, to the \<open>n\<close>-th status request of a URL and
  to the content request, each with the time it takes), and the library functions
  \<^verbatim>\<open>str\<close> on a value that is not a string, \<^verbatim>\<open>str\<close> on an exception and
  \<^verbatim>\<open>bytes.decode\<close>.
\<close>

record env =
  OPENAI_API_KEY :: "string option"
  http_post :: "string \<Rightarrow> (string \<times> string) list \<Rightarrow> reply \<times> real"
  http_get :: "string \<Rightarrow> nat \<Rightarrow> reply \<times> real"
  http_stream :: "string \<Rightarrow> stream_reply \<times> real"
  py_repr :: "json \<Rightarrow> string"
  exc_str :: "py_exception \<Rightarrow> string"
  decode :: "bytes \<Rightarrow> string option"

text \<open>
  The state: the clock (\<^verbatim>\<open>time.time()\<close>), the number of status requests sent so
  far, the requests and sleeps issued (each with the time it was issued at), and the file
  system: the entries by absolute path (a list of names from the root) and the working
  directory of the process.
\<close>

record world =
  now :: real
  polls :: nat
  trace :: "(real \<times> event) list"
  files :: "string list \<Rightarrow> node option"
  cwd :: "string list"

section \<open>Paths and the file system\<close>

text \<open>\<^verbatim>\<open>s.split('/')\<close>: the components of a path string.\<close>

fun components :: "string \<Rightarrow> string \<Rightarrow> string list" where
  "components acc [] = [acc]"
| "components acc (c # cs) =
     (if c = CHR ''/'' then acc # components [] cs else components (acc @ [c]) cs)"

definition split_slash :: "string \<Rightarrow> string list" where
  "split_slash s = components [] s"

fun join_slash :: "string list \<Rightarrow> string" where
  "join_slash [] = []"
| "join_slash [x] = x"
| "join_slash (x # y # ys) = x @ ''/'' @ join_slash (y # ys)"

text \<open>
  A \<^verbatim>\<open>pathlib\<close> path on POSIX: the root (empty for a relative path) and the parts.
  Parsing drops empty components and \<^verbatim>\<open>.\<close> components and keeps \<^verbatim>\<open>..\<close>;
  exactly two leading slashes are a root of their own. \<^verbatim>\<open>p / seg\<close> is \<open>seg\<close> alone
  when \<open>seg\<close> is absolute.
\<close>

record pure_path =
  root :: string
  parts :: "string list"

definition parse_root :: "string \<Rightarrow> string" where
  "parse_root s =
     (case s of
        c1 # c2 # c3 # _ \<Rightarrow>
          (if c1 = CHR ''/'' \<and> c2 = CHR ''/'' \<and> c3 \<noteq> CHR ''/'' then ''//''
           else if c1 = CHR ''/'' then ''/'' else [])
      | [c1, c2] \<Rightarrow>
          (if c1 = CHR ''/'' \<and> c2 = CHR ''/'' then ''//''
           else if c1 = CHR ''/'' then ''/'' else [])
      | [c1] \<Rightarrow> (if c1 = CHR ''/'' then ''/'' else [])
      | [] \<Rightarrow> [])"

definition Path :: "string \<Rightarrow> pure_path" where
  "Path s =
     \<lparr>root = parse_root s,
      parts = filter (\<lambda>c. c \<noteq> [] \<and> c \<noteq> ''.'') (split_slash s)\<rparr>"

definition joinpath :: "pure_path \<Rightarrow> string \<Rightarrow> pure_path" where
  "joinpath p seg =
     (let q = Path seg
      in if root q \<noteq> [] then q else \<lparr>root = root p, parts = parts p @ parts q\<rparr>)"

definition path_str :: "pure_path \<Rightarrow> string" where
  "path_str p =
     (if root p = [] \<and> parts p = [] then ''.'' else root p @ join_slash (parts p))"

text \<open>
  The operating system resolves a path string one component at a time, from the root
  when the string starts with a slash and from the working directory otherwise. A
  component is looked up in a directory only: in something that is not there the lookup
  fails with \<open>ENOENT\<close>, in a file with \<open>ENOTDIR\<close>. \<^verbatim>\<open>..\<close> is the parent, \<^verbatim>\<open>.\<close>
  and an empty component stay, and a name of more than \<open>NAME_MAX\<close> bytes fails with
  \<open>ENAMETOOLONG\<close>, as does a path string of \<open>PATH_MAX\<close> bytes or more (the limits are
  those of Linux). There are no symbolic links and no permissions in this model.
\<close>

definition NAME_MAX :: nat where
  "NAME_MAX = 255"

definition PATH_MAX :: nat where
  "PATH_MAX = 4096"

fun walk :: "(string list \<Rightarrow> node option) \<Rightarrow> string list \<Rightarrow> string list \<Rightarrow> errno + string list" where
  "walk fs cur [] = Inr cur"
| "walk fs cur (c # cs) =
     (if fs cur = Some Dir then
        (if c = [] \<or> c = ''.'' then walk fs cur cs
         else if c = ''..'' then walk fs (butlast cur) cs
         else if NAME_MAX < length c then Inl ENAMETOOLONG
         else walk fs (cur @ [c]) cs)
      else if fs cur = None then Inl ENOENT
      else Inl ENOTDIR)"

definition start_dir :: "world \<Rightarrow> string \<Rightarrow> string list" where
  "start_dir s p = (case p of [] \<Rightarrow> cwd s | c # _ \<Rightarrow> if c = CHR ''/'' then [] else cwd s)"

text \<open>
  \<^verbatim>\<open>os.stat\<close>: the entry a path string names, or the exception raised. Python refuses
  a string with a null byte before the system is asked.
\<close>

definition os_stat :: "world \<Rightarrow> string \<Rightarrow> py_exception + node" where
  "os_stat s p =
     (if CHR 0x00 \<in> set p then Inl ValueError
      else if p = [] then Inl (OSError ENOENT)
      else if PATH_MAX \<le> length p then Inl (OSError ENAMETOOLONG)
      else case walk (files s) (start_dir s p) (split_slash p) of
             Inl e \<Rightarrow> Inl (OSError e)
           | Inr t \<Rightarrow> (case files s t of None \<Rightarrow> Inl (OSError ENOENT) | Some entry \<Rightarrow> Inr entry))"

text \<open>
  \<^verbatim>\<open>Path.exists()\<close> is \<^verbatim>\<open>os.stat\<close> on the path's string: true when it returns,
  false when it fails with \<open>ENOENT\<close> or \<open>ENOTDIR\<close> or with a \<^verbatim>\<open>ValueError\<close>; any
  other failure is raised again. This is \<^verbatim>\<open>pathlib\<close> up to Python 3.13.
\<close>

definition path_exists :: "world \<Rightarrow> pure_path \<Rightarrow> py_exception + bool" where
  "path_exists s p =
     (case os_stat s (path_str p) of
        Inr entry \<Rightarrow> Inr True
      | Inl (OSError e) \<Rightarrow> if e = ENOENT \<or> e = ENOTDIR then Inr False else Inl (OSError e)
      | Inl ValueError \<Rightarrow> Inr False
      | Inl e \<Rightarrow> Inl e)"

text \<open>
  \<^verbatim>\<open>open(p, "wb")\<close>: the directory of the last component must resolve to a directory,
  and the last component must be a name of at most \<open>NAME_MAX\<close> bytes that does not name
  a directory. The file is created, or emptied when it exists. The result is the
  absolute path of the file.
\<close>

definition open_wb :: "world \<Rightarrow> string \<Rightarrow> (py_exception + string list) \<times> world" where
  "open_wb s p =
     (if CHR 0x00 \<in> set p then (Inl ValueError, s)
      else if p = [] then (Inl (OSError ENOENT), s)
      else if PATH_MAX \<le> length p then (Inl (OSError ENAMETOOLONG), s)
      else let cs = split_slash p
           in case walk (files s) (start_dir s p) (butlast cs) of
                Inl e \<Rightarrow> (Inl (OSError e), s)
              | Inr d \<Rightarrow>
                  if files s d = None then (Inl (OSError ENOENT), s)
                  else if files s d \<noteq> Some Dir then (Inl (OSError ENOTDIR), s)
                  else if last cs = [] \<or> last cs = ''.'' \<or> last cs = ''..''
                  then (Inl (OSError EISDIR), s)
                  else if NAME_MAX < length (last cs) then (Inl (OSError ENAMETOOLONG), s)
                  else if files s (d @ [last cs]) = Some Dir then (Inl (OSError EISDIR), s)
                  else (Inr (d @ [last cs]), s\<lparr>files := (files s)(d @ [last cs] \<mapsto> File [])\<rparr>))"

text \<open>\<^verbatim>\<open>f.write(chunk)\<close> appends to the open file.\<close>

definition file_write :: "string list \<Rightarrow> bytes \<Rightarrow> world \<Rightarrow> world" where
  "file_write target chunk s =
     s\<lparr>files := (files s)(target \<mapsto>
          File ((case files s target of Some (File old) \<Rightarrow> old | _ \<Rightarrow> []) @ chunk))\<rparr>"

section \<open>Configuration\<close>

definition OPENAI_API_BASE :: string where
  "OPENAI_API_BASE = ''https://api.openai.com/v1''"

definition VIDEOS_DIR :: pure_path where
  "VIDEOS_DIR = Path ''videos''"

text \<open>
  An f-string prints a string as it is and any other value through \<^verbatim>\<open>str\<close>. The
  credential is \<^verbatim>\<open>None\<close> when the environment variable is not set.
\<close>

definition py_format :: "env \<Rightarrow> json \<Rightarrow> string" where
  "py_format env v = (case v of JStr s \<Rightarrow> s | _ \<Rightarrow> py_repr env v)"

definition bearer :: "env \<Rightarrow> string" where
  "bearer env = ''Bearer '' @ (case OPENAI_API_KEY env of None \<Rightarrow> ''None'' | Some k \<Rightarrow> k)"

text \<open>Lines 51 to 53, and the two URLs of a job (lines 62 and 85).\<close>

definition auth_headers :: "env \<Rightarrow> headers" where
  "auth_headers env = [(''Authorization'', bearer env)]"

definition status_url :: "string \<Rightarrow> string" where
  "status_url video_id = OPENAI_API_BASE @ ''/videos/'' @ video_id"

definition content_url :: "string \<Rightarrow> string" where
  "content_url video_id = OPENAI_API_BASE @ ''/videos/'' @ video_id @ ''/content''"

section \<open>Effects\<close>

text \<open>
  A request is recorded with the time it is issued at; the clock then advances by the
  time the reply takes. Status requests are numbered, so that the upstream service can
  answer the same URL differently over time.
\<close>

definition client_post :: "env \<Rightarrow> string \<Rightarrow> headers \<Rightarrow> (string \<times> string) list \<Rightarrow> world \<Rightarrow> reply \<times> world" where
  "client_post env url hs payload s =
     (fst (http_post env url payload),
      s\<lparr>now := now s + snd (http_post env url payload),
        trace := trace s @ [(now s, Post url hs payload)]\<rparr>)"

definition client_get :: "env \<Rightarrow> string \<Rightarrow> headers \<Rightarrow> world \<Rightarrow> reply \<times> world" where
  "client_get env url hs s =
     (fst (http_get env url (polls s)),
      s\<lparr>now := now s + snd (http_get env url (polls s)),
        polls := polls s + 1,
        trace := trace s @ [(now s, Get url hs)]\<rparr>)"

definition client_stream :: "env \<Rightarrow> string \<Rightarrow> headers \<Rightarrow> world \<Rightarrow> stream_reply \<times> world" where
  "client_stream env url hs s =
     (fst (http_stream env url),
      s\<lparr>now := now s + snd (http_stream env url),
        trace := trace s @ [(now s, Stream url hs)]\<rparr>)"

text \<open>\<^verbatim>\<open>asyncio.sleep(d)\<close> suspends for \<open>d\<close> seconds, and not at all when \<open>d \<le> 0\<close>.\<close>

definition asyncio_sleep :: "real \<Rightarrow> world \<Rightarrow> world" where
  "asyncio_sleep d s = s\<lparr>now := now s + max 0 d, trace := trace s @ [(now s, Sleep d)]\<rparr>"

section \<open>wait_for_video_completion\<close>

text \<open>
  Lines 91 to 97: the chunks are written in order, empty ones skipped, and
  \<^verbatim>\<open>total_bytes\<close> counts what was written.
\<close>

fun write_chunks :: "string list \<Rightarrow> bytes list \<Rightarrow> nat \<Rightarrow> world \<Rightarrow> nat \<times> world" where
  "write_chunks f [] total_bytes s = (total_bytes, s)"
| "write_chunks f (chunk # rest) total_bytes s =
     (if chunk \<noteq> [] then write_chunks f rest (total_bytes + length chunk) (file_write f chunk s)
      else write_chunks f rest total_bytes s)"

text \<open>
  Lines 76 to 110, the branch of a completed job: the content is requested as a stream
  and, on status 200, written to \<^verbatim>\<open>videos/<video_id>.mp4\<close>; the job's data is
  returned with the two local keys added. Any other status is an error carrying the
  decoded body.
\<close>

definition download :: "env \<Rightarrow> string \<Rightarrow> pydict \<Rightarrow> world \<Rightarrow> (py_exception + pydict) \<times> world" where
  "download env video_id video_data s =
     (let video_filename = video_id @ ''.mp4'';
          video_path = joinpath VIDEOS_DIR video_filename
      in case client_stream env (content_url video_id) (auth_headers env) s of
           (StreamTransportError m, s1) \<Rightarrow> (Inl (RequestError m), s1)
         | (StreamResponse content_response, s1) \<Rightarrow>
             if stream_status content_response = 200 then
               (case open_wb s1 (path_str video_path) of
                  (Inl e, s2) \<Rightarrow> (Inl e, s2)
                | (Inr f, s2) \<Rightarrow>
                    (case write_chunks f (chunks content_response) 0 s2 of
                       (total_bytes, s3) \<Rightarrow>
                         (case stream_failure content_response of
                            Some m \<Rightarrow> (Inl (RequestError m), s3)
                          | None \<Rightarrow>
                              (Inr (AList.update ''video_filename'' (JStr video_filename)
                                     (AList.update ''local_path'' (JStr (path_str video_path))
                                        video_data)),
                               s3))))
             else
               (case stream_failure content_response of
                  Some m \<Rightarrow> (Inl (RequestError m), s1)
                | None \<Rightarrow>
                    (case decode env (concat (chunks content_response)) of
                       None \<Rightarrow> (Inl UnicodeDecodeError, s1)
                     | Some error_text \<Rightarrow>
                         (Inl (HTTPException (stream_status content_response)
                                 (''Failed to download video content: '' @ error_text)),
                          s1))))"

text \<open>
  Lines 112 to 114, the branch of a failed job:
  \<^verbatim>\<open>video_data.get("error", {}).get("message", "Unknown error")\<close>.
\<close>

definition failed_error :: "env \<Rightarrow> pydict \<Rightarrow> py_exception" where
  "failed_error env video_data =
     (case dict_get video_data ''error'' (JObj []) of
        JObj e \<Rightarrow>
          HTTPException 500
            (''Video generation failed: '' @ py_format env (dict_get e ''message'' (JStr ''Unknown error'')))
      | _ \<Rightarrow> AttributeError)"

text \<open>Lines 61 to 64: the status request.\<close>

definition check_status :: "env \<Rightarrow> string \<Rightarrow> world \<Rightarrow> reply \<times> world" where
  "check_status env video_id s =
     client_get env (status_url video_id) (auth_headers env) s"

text \<open>
  Lines 59 to 119. The loop may run forever (when the clock does not advance), so it is
  a partial function: not returning is the value \<open>None\<close>.
\<close>

partial_function (option) wait_loop ::
  "env \<Rightarrow> string \<Rightarrow> real \<Rightarrow> int \<Rightarrow> world \<Rightarrow> ((py_exception + pydict) \<times> world) option" where
  "wait_loop env video_id start_time max_wait s =
     (if now s - start_time < real_of_int max_wait then
        (case check_status env video_id s of
           (TransportError m, s1) \<Rightarrow> Some (Inl (RequestError m), s1)
         | (Response response, s1) \<Rightarrow>
             if status_code response \<noteq> 200 then
               Some (Inl (HTTPException (status_code response)
                            (''Failed to check video status: '' @ body_text response)), s1)
             else
               (case body_json response of
                  None \<Rightarrow> Some (Inl JSONDecodeError, s1)
                | Some (JObj video_data) \<Rightarrow>
                    if dict_get video_data ''status'' JNull = JStr ''completed'' then
                      Some (download env video_id video_data s1)
                    else if dict_get video_data ''status'' JNull = JStr ''failed'' then
                      Some (Inl (failed_error env video_data), s1)
                    else
                      wait_loop env video_id start_time max_wait
                        (asyncio_sleep (min 5 (1 + (now s1 - start_time) / 30)) s1)
                | Some _ \<Rightarrow> Some (Inl AttributeError, s1)))
      else Some (Inl (HTTPException 408 ''Video generation timeout''), s))"

definition wait_for_video_completion ::
  "env \<Rightarrow> string \<Rightarrow> int \<Rightarrow> world \<Rightarrow> ((py_exception + pydict) \<times> world) option" where
  "wait_for_video_completion env video_id max_wait s = wait_loop env video_id (now s) max_wait s"

section \<open>generate_video\<close>

record VideoRequest =
  prompt :: string
  model :: string
  size_field :: string
  duration :: int

record VideoResponse =
  video_url :: string
  status :: string
  message :: string

text \<open>The durations the comment of line 29 names as supported.\<close>

definition supported_durations :: "int set" where
  "supported_durations = {4, 8, 12}"

text \<open>\<^verbatim>\<open>str\<close> on an integer: its decimal digits, with a minus sign when negative.\<close>

fun digits :: "nat \<Rightarrow> string" where
  "digits n =
     (if n < 10 then [''0123456789'' ! n]
      else digits (n div 10) @ [''0123456789'' ! (n mod 10)])"

declare digits.simps [simp del]

definition str_int :: "int \<Rightarrow> string" where
  "str_int i = (if i < 0 then ''-'' @ digits (nat (- i)) else digits (nat i))"

text \<open>Lines 140 to 149: the payload, a dictionary whose values are all strings.\<close>

definition payload_of :: "VideoRequest \<Rightarrow> (string \<times> string) list" where
  "payload_of request =
     (let payload =
            [(''model'', model request), (''prompt'', prompt request), (''size'', size_field request)]
      in if duration request \<noteq> 0
         then AList.update ''seconds'' (str_int (duration request)) payload
         else payload)"

text \<open>
  Lines 160 to 165: the detail of a refused creation is the message of the error object
  when the body is JSON of that shape, and the body's text otherwise (the bare
  \<^verbatim>\<open>except\<close> swallows every failure).
\<close>

definition create_error_detail :: "env \<Rightarrow> response \<Rightarrow> string" where
  "create_error_detail env response =
     (case body_json response of
        Some (JObj error_json) \<Rightarrow>
          (case dict_get error_json ''error'' (JObj []) of
             JObj e \<Rightarrow> py_format env (dict_get e ''message'' (JStr (body_text response)))
           | _ \<Rightarrow> body_text response)
      | _ \<Rightarrow> body_text response)"

text \<open>
  Lines 128 to 175, the first half of the handler's \<^verbatim>\<open>try\<close> block: the credential
  check, the payload, the creation request and the job identifier of the reply.
\<close>

definition create_video :: "env \<Rightarrow> VideoRequest \<Rightarrow> world \<Rightarrow> (py_exception + json) \<times> world" where
  "create_video env request s =
     (if OPENAI_API_KEY env = None \<or> OPENAI_API_KEY env = Some [] then
        (Inl (HTTPException 500 ''OPENAI_API_KEY not configured. Please set it in .env file''), s)
      else
        (case client_post env (OPENAI_API_BASE @ ''/videos'')
                [(''Authorization'', bearer env), (''Content-Type'', ''application/json'')]
                (payload_of request) s of
           (TransportError m, s1) \<Rightarrow> (Inl (RequestError m), s1)
         | (Response response, s1) \<Rightarrow>
             if status_code response \<noteq> 200 \<and> status_code response \<noteq> 201 then
               (Inl (HTTPException (status_code response)
                       (''Failed to create video: '' @ create_error_detail env response)), s1)
             else
               (case body_json response of
                  None \<Rightarrow> (Inl JSONDecodeError, s1)
                | Some (JObj video_data) \<Rightarrow>
                    if \<not> truthy (dict_get video_data ''id'' JNull) then
                      (Inl (HTTPException 500 ''No video ID returned''), s1)
                    else (Inr (dict_get video_data ''id'' JNull), s1)
                | Some _ \<Rightarrow> (Inl AttributeError, s1))))"

text \<open>
  Lines 177 to 200, the second half: the wait with the default budget of 600 seconds,
  and the local URL of the downloaded file.
\<close>

definition finish_video :: "env \<Rightarrow> json \<Rightarrow> world \<Rightarrow> ((py_exception + VideoResponse) \<times> world) option" where
  "finish_video env video_id s =
     (case wait_for_video_completion env (py_format env video_id) 600 s of
        None \<Rightarrow> None
      | Some (Inl e, s1) \<Rightarrow> Some (Inl e, s1)
      | Some (Inr completed_video, s1) \<Rightarrow>
          if \<not> truthy (dict_get completed_video ''video_filename'' JNull) then
            Some (Inl (HTTPException 500
                         (''No video file found. Response: '' @
                            take 500 (py_repr env (JObj completed_video)))), s1)
          else
            Some (Inr \<lparr>video_url =
                         ''/videos/'' @ py_format env (dict_get completed_video ''video_filename'' JNull),
                       status = ''success'',
                       message = ''Video generated successfully''\<rparr>, s1))"

text \<open>
  Lines 202 to 206: an \<open>HTTPException\<close> passes, any other exception becomes status 500
  with the exception's text.
\<close>

definition except_clause :: "env \<Rightarrow> py_exception + 'a \<Rightarrow> py_exception + 'a" where
  "except_clause env r =
     (case r of
        Inl (HTTPException c d) \<Rightarrow> Inl (HTTPException c d)
      | Inl e \<Rightarrow> Inl (HTTPException 500 (''Error generating video: '' @ exc_str env e))
      | Inr v \<Rightarrow> Inr v)"

definition generate_video ::
  "env \<Rightarrow> VideoRequest \<Rightarrow> world \<Rightarrow> ((py_exception + VideoResponse) \<times> world) option" where
  "generate_video env request s =
     (case create_video env request s of
        (Inl e, s1) \<Rightarrow> Some (except_clause env (Inl e), s1)
      | (Inr video_id, s1) \<Rightarrow>
          (case finish_video env video_id s1 of
             None \<Rightarrow> None
           | Some (r, s2) \<Rightarrow> Some (except_clause env r, s2)))"

section \<open>serve_video\<close>

record FileResponse =
  path :: string
  media_type :: string
  filename :: string

definition serve_video :: "world \<Rightarrow> string \<Rightarrow> py_exception + FileResponse" where
  "serve_video s video_filename =
     (let video_path = joinpath VIDEOS_DIR video_filename
      in case path_exists s video_path of
           Inl e \<Rightarrow> Inl e
         | Inr found \<Rightarrow>
             if \<not> found then Inl (HTTPException 404 ''Video not found'')
             else Inr \<lparr>path = path_str video_path, media_type = ''video/mp4'',
                       filename = video_filename\<rparr>)"

text \<open>
  What the framework does with the handler's result. A \<^verbatim>\<open>FileResponse\<close> is sent by
  reading the file at its path: the framework raises a \<^verbatim>\<open>RuntimeError\<close> when the path
  names nothing or something that is not a regular file, and lets any other failure of
  \<^verbatim>\<open>os.stat\<close> pass. An \<open>HTTPException\<close> is answered with its status code, any
  other exception with status 500.
\<close>

definition send_file :: "world \<Rightarrow> FileResponse \<Rightarrow> py_exception + bytes \<times> string" where
  "send_file s r =
     (case os_stat s (path r) of
        Inr (File b) \<Rightarrow> Inr (b, media_type r)
      | Inr Dir \<Rightarrow> Inl RuntimeError
      | Inl (OSError e) \<Rightarrow> if e = ENOENT then Inl RuntimeError else Inl (OSError e)
      | Inl e \<Rightarrow> Inl e)"

datatype http_answer = Body int bytes string | Error int

definition get_videos :: "world \<Rightarrow> string \<Rightarrow> http_answer" where
  "get_videos s video_filename =
     (case serve_video s video_filename of
        Inl (HTTPException c d) \<Rightarrow> Error c
      | Inl e \<Rightarrow> Error 500
      | Inr r \<Rightarrow>
          (case send_file s r of
             Inl e \<Rightarrow> Error 500
           | Inr (b, t) \<Rightarrow> Body 200 b t))"

section \<open>Notions the properties are stated with\<close>

text \<open>
  A status reply that leaves the job pending: status 200 and a JSON object whose status
  is neither \<^verbatim>\<open>completed\<close> nor \<^verbatim>\<open>failed\<close>. It is the case in which the loop body
  reaches the sleep of line 117.
\<close>

definition pending :: "reply \<Rightarrow> bool" where
  "pending rep =
     (case rep of
        TransportError m \<Rightarrow> False
      | Response r \<Rightarrow>
          status_code r = 200 \<and>
          (case body_json r of
             Some (JObj video_data) \<Rightarrow>
               dict_get video_data ''status'' JNull \<noteq> JStr ''completed'' \<and>
               dict_get video_data ''status'' JNull \<noteq> JStr ''failed''
           | _ \<Rightarrow> False))"

text \<open>The content request among the events.\<close>

fun is_stream :: "event \<Rightarrow> bool" where
  "is_stream (Stream url hs) = True"
| "is_stream _ = False"

text \<open>
  The state of the loop after \<open>n\<close> iterations that each found the budget not used up
  and the job pending; \<open>None\<close> when one of these iterations does not take place so.
\<close>

fun pending_steps :: "env \<Rightarrow> string \<Rightarrow> real \<Rightarrow> int \<Rightarrow> nat \<Rightarrow> world \<Rightarrow> world option" where
  "pending_steps env video_id start_time max_wait 0 s = Some s"
| "pending_steps env video_id start_time max_wait (Suc n) s =
     (if now s - start_time < real_of_int max_wait \<and> pending (fst (check_status env video_id s))
      then pending_steps env video_id start_time max_wait n
             (asyncio_sleep (min 5 (1 + (now (snd (check_status env video_id s)) - start_time) / 30))
                (snd (check_status env video_id s)))
      else None)"

section \<open>A small installation, for concrete runs\<close>

text \<open>
  The process runs in \<^verbatim>\<open>/app\<close>, which holds \<^verbatim>\<open>main.py\<close> and the (empty)
  \<^verbatim>\<open>videos\<close> directory. The upstream service answers every request with status 200;
  \<open>job n\<close> is the body of the \<open>n\<close>-th status reply.
\<close>

definition example_files :: "string list \<Rightarrow> node option" where
  "example_files =
     map_of [([], Dir), ([''app''], Dir), ([''app'', ''videos''], Dir),
             ([''app'', ''main.py''], File ''import os'')]"

definition example_world :: world where
  "example_world = \<lparr>now = 0, polls = 0, trace = [], files = example_files, cwd = [''app'']\<rparr>"

definition json_reply :: "pydict \<Rightarrow> reply \<times> real" where
  "json_reply d = (Response \<lparr>status_code = 200, body_text = [], body_json = Some (JObj d)\<rparr>, 1 / 2)"

definition example_env :: "(nat \<Rightarrow> pydict) \<Rightarrow> env" where
  "example_env job =
     \<lparr>OPENAI_API_KEY = Some ''sk-test'',
      http_post = (\<lambda>url payload. json_reply [(''id'', JStr ''video_1'')]),
      http_get = (\<lambda>url n. json_reply (job n)),
      http_stream = (\<lambda>url. (StreamResponse \<lparr>stream_status = 200, chunks = [''abc'', [], ''de''],
                                               stream_failure = None\<rparr>, 1)),
      py_repr = (\<lambda>v. ''?''),
      exc_str = (\<lambda>e. ''?''),
      decode = Some\<rparr>"

definition queued :: "nat \<Rightarrow> pydict" where
  "queued n = [(''status'', JStr ''queued'')]"

definition queued_then :: "pydict \<Rightarrow> nat \<Rightarrow> pydict" where
  "queued_then d n = (if n = 0 then [(''status'', JStr ''queued'')] else d)"

definition example_request :: VideoRequest where
  "example_request = \<lparr>prompt = ''a cat'', model = ''sora-2'', size_field = ''720x1280'', duration = 8\<rparr>"

definition failed_job :: pydict where
  "failed_job = [(''status'', JStr ''failed''), (''error'', JObj [(''message'', JStr ''moderation blocked'')])]"

definition completed_job :: pydict where
  "completed_job = [(''id'', JStr ''video_1''), (''status'', JStr ''completed'')]"


section \<open>The loop, one iteration at a time\<close>

lemma wait_loop_timeout:
  "\<not> now s - start_time < real_of_int max_wait \<Longrightarrow>
   wait_loop env video_id start_time max_wait s =
     Some (Inl (HTTPException 408 ''Video generation timeout''), s)"
  by (subst wait_loop.simps) simp

lemma wait_loop_pending:
  assumes "now s - start_time < real_of_int max_wait"
    and "pending (fst (check_status env video_id s))"
  shows "wait_loop env video_id start_time max_wait s =
     wait_loop env video_id start_time max_wait
       (asyncio_sleep (min 5 (1 + (now (snd (check_status env video_id s)) - start_time) / 30))
          (snd (check_status env video_id s)))"
  using assms
  by (subst wait_loop.simps)
     (auto simp: pending_def split: prod.splits reply.splits option.splits json.splits)

lemma wait_loop_failed:
  assumes "now s - start_time < real_of_int max_wait"
    and "fst (check_status env video_id s) = Response r"
    and "status_code r = 200" and "body_json r = Some (JObj video_data)"
    and "dict_get video_data ''status'' JNull = JStr ''failed''"
  shows "wait_loop env video_id start_time max_wait s =
     Some (Inl (failed_error env video_data), snd (check_status env video_id s))"
  using assms
  by (subst wait_loop.simps) (auto split: prod.splits)

lemma wait_loop_completed:
  assumes "now s - start_time < real_of_int max_wait"
    and "fst (check_status env video_id s) = Response r"
    and "status_code r = 200" and "body_json r = Some (JObj video_data)"
    and "dict_get video_data ''status'' JNull = JStr ''completed''"
  shows "wait_loop env video_id start_time max_wait s =
     Some (download env video_id video_data (snd (check_status env video_id s)))"
  using assms
  by (subst wait_loop.simps) (auto split: prod.splits)

lemma check_status_fst:
  "fst (check_status env video_id s) =
     fst (http_get env (status_url video_id) (polls s))"
  by (simp add: check_status_def client_get_def)

lemma check_status_snd:
  "snd (check_status env video_id s) =
     s\<lparr>now := now s + snd (http_get env (status_url video_id) (polls s)),
       polls := polls s + 1,
       trace := trace s @ [(now s, Get (status_url video_id)
                                      (auth_headers env))]\<rparr>"
  by (simp add: check_status_def client_get_def)

lemma delay_ge_1: "0 \<le> e \<Longrightarrow> 1 \<le> min 5 (1 + e / 30)" for e :: real
  by simp

lemma delay_le_5: "min 5 (1 + e / 30) \<le> 5" for e :: real
  by simp

lemma wait_loop_times_out:
  fixes L :: real
  assumes "\<forall>i. polls s \<le> i \<and> i < polls s + nat \<lceil>real_of_int max_wait - (now s - start_time)\<rceil> \<longrightarrow>
             pending (fst (http_get env (status_url video_id) i))
             \<and> 0 \<le> snd (http_get env (status_url video_id) i)
             \<and> snd (http_get env (status_url video_id) i) \<le> L"
    and "start_time \<le> now s"
    and "now s - start_time < real_of_int max_wait + L + 5"
  shows "\<exists>s' evs. wait_loop env video_id start_time max_wait s =
             Some (Inl (HTTPException 408 ''Video generation timeout''), s')
           \<and> real_of_int max_wait \<le> now s' - start_time
           \<and> now s' - start_time < real_of_int max_wait + L + 5
           \<and> trace s' = trace s @ evs \<and> (\<forall>e\<in>set evs. \<not> is_stream (snd e))
           \<and> files s' = files s"
  using assms
proof (induction "nat \<lceil>real_of_int max_wait - (now s - start_time)\<rceil>" arbitrary: s rule: less_induct)
  case less
  show ?case
  proof (cases "now s - start_time < real_of_int max_wait")
    case False
    then have "wait_loop env video_id start_time max_wait s =
        Some (Inl (HTTPException 408 ''Video generation timeout''), s)"
      by (rule wait_loop_timeout)
    moreover have "real_of_int max_wait \<le> now s - start_time" using False by simp
    ultimately show ?thesis using less.prems(3) by auto
  next
    case True
    define lat where "lat = snd (http_get env (status_url video_id) (polls s))"
    define s1 where "s1 = snd (check_status env video_id s)"
    define d where "d = min 5 (1 + (now s1 - start_time) / 30)"
    define s2 where "s2 = asyncio_sleep d s1"
    have m: "0 < nat \<lceil>real_of_int max_wait - (now s - start_time)\<rceil>"
      using True by linarith
    have here: "pending (fst (http_get env (status_url video_id) (polls s)))"
      "0 \<le> lat" "lat \<le> L"
      using less.prems(1) m by (simp_all add: lat_def)
    have s1: "now s1 = now s + lat" "polls s1 = polls s + 1" "files s1 = files s"
      "trace s1 = trace s @ [(now s, Get (status_url video_id) (auth_headers env))]"
      by (simp_all add: s1_def check_status_snd lat_def)
    have e1: "0 \<le> now s1 - start_time" using s1(1) here(2) less.prems(2) by simp
    have d: "1 \<le> d" "d \<le> 5"
      using delay_ge_1[OF e1] delay_le_5 by (simp_all add: d_def)
    have s2: "now s2 = now s1 + d" "polls s2 = polls s1" "files s2 = files s1"
      "trace s2 = trace s1 @ [(now s1, Sleep d)]"
      using d(1) by (simp_all add: s2_def asyncio_sleep_def max_def)
    have step: "wait_loop env video_id start_time max_wait s =
        wait_loop env video_id start_time max_wait s2"
      unfolding s2_def d_def s1_def
      by (rule wait_loop_pending[OF True]) (simp add: check_status_fst here(1))
    have smaller: "nat \<lceil>real_of_int max_wait - (now s2 - start_time)\<rceil>
        < nat \<lceil>real_of_int max_wait - (now s - start_time)\<rceil>"
      using True d(1) here(2) s1(1) s2(1) by linarith
    have p1: "\<forall>i. polls s2 \<le> i \<and> i < polls s2 + nat \<lceil>real_of_int max_wait - (now s2 - start_time)\<rceil> \<longrightarrow>
             pending (fst (http_get env (status_url video_id) i))
             \<and> 0 \<le> snd (http_get env (status_url video_id) i)
             \<and> snd (http_get env (status_url video_id) i) \<le> L"
    proof (intro allI impI)
      fix i
      assume i: "polls s2 \<le> i \<and> i < polls s2 + nat \<lceil>real_of_int max_wait - (now s2 - start_time)\<rceil>"
      then have "polls s \<le> i \<and> i < polls s + nat \<lceil>real_of_int max_wait - (now s - start_time)\<rceil>"
        using smaller s1(2) s2(2) by linarith
      then show "pending (fst (http_get env (status_url video_id) i))
             \<and> 0 \<le> snd (http_get env (status_url video_id) i)
             \<and> snd (http_get env (status_url video_id) i) \<le> L"
        using less.prems(1) by blast
    qed
    have p2: "start_time \<le> now s2" using s2(1) s1(1) d(1) here(2) less.prems(2) by linarith
    have p3: "now s2 - start_time < real_of_int max_wait + L + 5"
      using True s2(1) s1(1) d(2) here(3) by linarith
    from less.hyps[OF smaller p1 p2 p3]
    obtain s' evs where r: "wait_loop env video_id start_time max_wait s2 =
             Some (Inl (HTTPException 408 ''Video generation timeout''), s')"
           "real_of_int max_wait \<le> now s' - start_time"
           "now s' - start_time < real_of_int max_wait + L + 5"
           "trace s' = trace s2 @ evs" "\<forall>e\<in>set evs. \<not> is_stream (snd e)"
           "files s' = files s2"
      by blast
    have "trace s' = trace s @ ((now s, Get (status_url video_id) (auth_headers env))
                                  # (now s1, Sleep d) # evs)"
      using r(4) s2(4) s1(4) by simp
    moreover have "\<forall>e\<in>set ((now s, Get (status_url video_id) (auth_headers env))
                                  # (now s1, Sleep d) # evs).
         \<not> is_stream (snd e)"
      using r(5) by simp
    ultimately show ?thesis
      using step r(1,2,3,6) s1(3) s2(3) by metis
  qed
qed

lemma pending_steps_loop:
  "pending_steps env video_id start_time max_wait n s = Some sn \<Longrightarrow>
   wait_loop env video_id start_time max_wait s = wait_loop env video_id start_time max_wait sn"
proof (induction n arbitrary: s)
  case 0
  then show ?case by simp
next
  case (Suc n)
  then show ?case
    by (simp split: if_splits add: wait_loop_pending)
qed

lemma pending_steps_state:
  "pending_steps env video_id start_time max_wait n s = Some sn \<Longrightarrow>
   polls sn = polls s + n \<and> files sn = files s \<and> cwd sn = cwd s \<and>
   (\<exists>evs. trace sn = trace s @ evs \<and> length evs = 2 * n \<and>
      (\<forall>e\<in>set evs. \<not> is_stream (snd e)))"
proof (induction n arbitrary: s)
  case 0
  then show ?case by simp
next
  case (Suc n)
  let ?s2 = "asyncio_sleep (min 5 (1 + (now (snd (check_status env video_id s)) - start_time) / 30))
                (snd (check_status env video_id s))"
  from Suc.prems have "pending_steps env video_id start_time max_wait n ?s2 = Some sn"
    by (simp split: if_splits)
  from Suc.IH[OF this] obtain evs where
    a: "polls sn = polls ?s2 + n" "files sn = files ?s2" "cwd sn = cwd ?s2"
       "trace sn = trace ?s2 @ evs" "\<forall>e\<in>set evs. \<not> is_stream (snd e)"
       "length evs = 2 * n"
    by blast
  have b: "polls ?s2 = polls s + 1" "files ?s2 = files s" "cwd ?s2 = cwd s"
    by (simp_all add: asyncio_sleep_def check_status_snd)
  obtain e1 e2 where c: "trace ?s2 = trace s @ [e1, e2]" "\<not> is_stream (snd e1)" "\<not> is_stream (snd e2)"
    by (simp add: asyncio_sleep_def check_status_snd)
  have "trace sn = trace s @ (e1 # e2 # evs)" using a(4) c(1) by simp
  moreover have "\<forall>e\<in>set (e1 # e2 # evs). \<not> is_stream (snd e)" using a(5) c(2,3) by simp
  moreover have "length (e1 # e2 # evs) = 2 * Suc n" using a(6) by simp
  moreover have "polls sn = polls s + Suc n" using a(1) b(1) by simp
  ultimately show ?case using a(2,3) b(2,3) by metis
qed

lemma open_wb_frame:
  "open_wb s p = (r, s') \<Longrightarrow> now s' = now s \<and> polls s' = polls s \<and> trace s' = trace s \<and> cwd s' = cwd s"
  by (auto simp: open_wb_def Let_def split: if_splits sum.splits)

lemma write_chunks_frame:
  "write_chunks f cs n s = (n', s') \<Longrightarrow>
   now s' = now s \<and> polls s' = polls s \<and> trace s' = trace s \<and> cwd s' = cwd s"
  by (induction f cs n s rule: write_chunks.induct) (auto simp: file_write_def split: if_splits)

lemma client_stream_snd:
  "snd (client_stream env url hs s) =
     s\<lparr>now := now s + snd (http_stream env url), trace := trace s @ [(now s, Stream url hs)]\<rparr>"
  by (simp add: client_stream_def)

lemma download_frame:
  "polls (snd (download env video_id video_data s)) = polls s \<and>
   cwd (snd (download env video_id video_data s)) = cwd s \<and>
   trace (snd (download env video_id video_data s)) =
     trace s @ [(now s, Stream (content_url video_id) (auth_headers env))]"
  by (auto simp: download_def Let_def client_stream_def
      split: prod.splits stream_reply.splits sum.splits option.splits
      dest!: open_wb_frame write_chunks_frame)

section \<open>Files after a download\<close>

lemma components_nonempty: "components acc s \<noteq> []"
  by (induction acc s rule: components.induct) auto

lemma split_slash_nonempty: "split_slash s \<noteq> []"
  by (simp add: split_slash_def components_nonempty)

lemma walk_append:
  "walk fs cur (xs @ ys) = (case walk fs cur xs of Inl e \<Rightarrow> Inl e | Inr d \<Rightarrow> walk fs d ys)"
  by (induction fs cur xs rule: walk.induct) auto

lemma walk_cong_dirs:
  "(\<And>p. (fs' p = Some Dir) = (fs p = Some Dir)) \<Longrightarrow> walk fs cur cs = Inr d \<Longrightarrow>
   walk fs' cur cs = Inr d"
  by (induction fs cur cs rule: walk.induct) (auto split: if_splits)

lemma write_chunks_result:
  "files s f = Some (File old) \<Longrightarrow>
   fst (write_chunks f cs n s) = n + sum_list (map length cs) \<and>
   files (snd (write_chunks f cs n s)) = (files s)(f \<mapsto> File (old @ concat cs))"
proof (induction f cs n s arbitrary: old rule: write_chunks.induct)
  case (1 f total_bytes s)
  then show ?case by (auto simp: fun_upd_idem)
next
  case (2 f chunk rest total_bytes s)
  show ?case
  proof (cases "chunk = []")
    case True
    with 2 show ?thesis by simp
  next
    case False
    have "files (file_write f chunk s) f = Some (File (old @ chunk))"
      using 2(3) by (simp add: file_write_def)
    from 2(1)[OF False this] False 2(3) show ?thesis
      by (auto simp: file_write_def fun_eq_iff)
  qed
qed

lemma open_wb_success:
  assumes "open_wb s p = (Inr f, s')"
  shows "\<exists>d. p \<noteq> [] \<and> CHR 0x00 \<notin> set p \<and> length p < PATH_MAX
           \<and> length (last (split_slash p)) \<le> NAME_MAX
           \<and> walk (files s) (start_dir s p) (butlast (split_slash p)) = Inr d
           \<and> files s d = Some Dir \<and> f = d @ [last (split_slash p)]
           \<and> last (split_slash p) \<noteq> [] \<and> last (split_slash p) \<noteq> ''.''
           \<and> last (split_slash p) \<noteq> ''..''
           \<and> files s f \<noteq> Some Dir
           \<and> files s' = (files s)(f \<mapsto> File []) \<and> cwd s' = cwd s"
  using assms
  by (auto simp: open_wb_def Let_def split: if_splits sum.splits)

lemma start_dir_cwd: "cwd s' = cwd s \<Longrightarrow> start_dir s' p = start_dir s p"
  by (simp add: start_dir_def split: list.splits)

lemma stat_after_write:
  assumes "open_wb s p = (Inr f, s2)"
    and "files s3 = (files s2)(f \<mapsto> File content)" and "cwd s3 = cwd s2"
  shows "os_stat s3 p = Inr (File content)"
proof -
  from open_wb_success[OF assms(1)] obtain d where
    o: "p \<noteq> []" "walk (files s) (start_dir s p) (butlast (split_slash p)) = Inr d"
       "files s d = Some Dir" "f = d @ [last (split_slash p)]"
       "last (split_slash p) \<noteq> []" "last (split_slash p) \<noteq> ''.''"
       "last (split_slash p) \<noteq> ''..''" "files s f \<noteq> Some Dir"
       "files s2 = (files s)(f \<mapsto> File [])" "cwd s2 = cwd s"
       "CHR 0x00 \<notin> set p" "length p < PATH_MAX" "length (last (split_slash p)) \<le> NAME_MAX"
    by blast
  have fs3: "files s3 = (files s)(f \<mapsto> File content)"
    using assms(2) o(9) by simp
  have dirs: "\<And>q. (files s3 q = Some Dir) = (files s q = Some Dir)"
    using o(8) by (simp add: fs3)
  have sd: "start_dir s3 p = start_dir s p"
    by (rule start_dir_cwd) (simp add: assms(3) o(10))
  have split: "butlast (split_slash p) @ [last (split_slash p)] = split_slash p"
    using split_slash_nonempty by simp
  have w1: "walk (files s3) (start_dir s3 p) (butlast (split_slash p)) = Inr d"
    using walk_cong_dirs[of "files s3" "files s", OF dirs] o(2) sd by simp
  have d3: "files s3 d = Some Dir" using dirs o(3) by simp
  have w2: "walk (files s3) d [last (split_slash p)] = Inr f"
    using d3 o(4,5,6,7,13) by simp
  have "walk (files s3) (start_dir s3 p) (butlast (split_slash p) @ [last (split_slash p)]) = Inr f"
    by (simp only: walk_append w1 w2 sum.case)
  then have "walk (files s3) (start_dir s3 p) (split_slash p) = Inr f"
    by (simp only: split)
  then show ?thesis
    using o(1,11,12) by (simp add: os_stat_def fs3)
qed

lemma download_success:
  assumes "download env video_id video_data s = (Inr result, s')"
  shows "\<exists>content_response lat.
      http_stream env (content_url video_id) = (StreamResponse content_response, lat)
    \<and> stream_status content_response = 200 \<and> stream_failure content_response = None
    \<and> os_stat s' (path_str (joinpath VIDEOS_DIR (video_id @ ''.mp4''))) =
        Inr (File (concat (chunks content_response)))
    \<and> result = AList.update ''video_filename'' (JStr (video_id @ ''.mp4''))
                 (AList.update ''local_path'' (JStr (path_str (joinpath VIDEOS_DIR (video_id @ ''.mp4''))))
                    video_data)"
proof -
  let ?p = "path_str (joinpath VIDEOS_DIR (video_id @ ''.mp4''))"
  let ?s1 = "snd (client_stream env (content_url video_id) (auth_headers env) s)"
  obtain rep lat where h: "http_stream env (content_url video_id) = (rep, lat)"
    by (cases "http_stream env (content_url video_id)")
  from assms h obtain cr where cr: "rep = StreamResponse cr" "stream_status cr = 200"
    by (auto simp: download_def Let_def client_stream_def
        split: stream_reply.splits if_splits option.splits)
  from assms h cr obtain f s2 where op: "open_wb ?s1 ?p = (Inr f, s2)"
    by (auto simp: download_def Let_def client_stream_def split: prod.splits sum.splits)
  obtain tb s3 where wc: "write_chunks f (chunks cr) 0 s2 = (tb, s3)"
    by (cases "write_chunks f (chunks cr) 0 s2")
  from assms h cr op wc have fin: "stream_failure cr = None" "s' = s3"
    "result = AList.update ''video_filename'' (JStr (video_id @ ''.mp4''))
                 (AList.update ''local_path'' (JStr ?p) video_data)"
    by (auto simp: download_def Let_def client_stream_def split: option.splits)
  have f2: "files s2 f = Some (File [])"
    using open_wb_success[OF op] by auto
  have "files s3 = (files s2)(f \<mapsto> File (concat (chunks cr)))"
    using write_chunks_result[OF f2, of "chunks cr" 0] wc by simp
  moreover have "cwd s3 = cwd s2" using write_chunks_frame[OF wc] by simp
  ultimately have "os_stat s3 ?p = Inr (File (concat (chunks cr)))"
    by (rule stat_after_write[OF op])
  then show ?thesis using h cr fin by auto
qed

section \<open>Every run that returns\<close>

lemma wait_loop_result:
  assumes "wait_loop env video_id start_time max_wait s = Some y"
  shows "(\<exists>evs. trace (snd y) = trace s @ evs) \<and>
         (\<forall>result. fst y = Inr result \<longrightarrow>
            (\<exists>video_data s1. download env video_id video_data s1 = (Inr result, snd y)))"
proof (rule wait_loop.raw_induct[where P = "\<lambda>env video_id start_time max_wait s y.
         (\<exists>evs. trace (snd y) = trace s @ evs) \<and>
         (\<forall>result. fst y = Inr result \<longrightarrow>
            (\<exists>video_data s1. download env video_id video_data s1 = (Inr result, snd y)))",
       OF _ assms], goal_cases)
  case (1 f env video_id start_time max_wait s y)
  let ?s1 = "snd (check_status env video_id s)"
  have t1: "trace ?s1 = trace s @ [(now s, Get (status_url video_id) (auth_headers env))]"
    by (simp add: check_status_snd)
  show ?case
  proof (cases "now s - start_time < real_of_int max_wait")
    case False
    with 1(2) show ?thesis by auto
  next
    case True
    note budget = this
    show ?thesis
    proof (cases "pending (fst (check_status env video_id s))")
      case True
      let ?s2 = "asyncio_sleep (min 5 (1 + (now ?s1 - start_time) / 30)) ?s1"
      from 1(2) budget True
      have "f env video_id start_time max_wait ?s2 = Some y"
        by (auto simp: pending_def split: prod.splits reply.splits option.splits json.splits if_splits)
      from 1(1)[OF this] obtain evs where
        a: "trace (snd y) = trace ?s2 @ evs"
           "\<forall>result. fst y = Inr result \<longrightarrow>
              (\<exists>video_data s1. download env video_id video_data s1 = (Inr result, snd y))"
        by blast
      have "trace ?s2 = trace ?s1 @ [(now ?s1, Sleep (min 5 (1 + (now ?s1 - start_time) / 30)))]"
        by (simp add: asyncio_sleep_def)
      with a t1 show ?thesis by simp
    next
      case False
      from 1(2) budget False
      have "(snd y = ?s1 \<and> (\<forall>result. fst y \<noteq> Inr result)) \<or>
            (\<exists>video_data. y = download env video_id video_data ?s1)"
        by (auto simp: pending_def failed_error_def
            split: prod.splits reply.splits option.splits json.splits if_splits)
      then show ?thesis
      proof
        assume "snd y = ?s1 \<and> (\<forall>result. fst y \<noteq> Inr result)"
        then show ?thesis using t1 by simp
      next
        assume "\<exists>video_data. y = download env video_id video_data ?s1"
        then obtain video_data where d: "y = download env video_id video_data ?s1" ..
        have "trace (snd y) = trace s @ [(now s, Get (status_url video_id) (auth_headers env)),
                 (now ?s1, Stream (content_url video_id) (auth_headers env))]"
          using download_frame[of env video_id video_data ?s1] t1 d by simp
        moreover have "\<forall>result. fst y = Inr result \<longrightarrow>
              (\<exists>video_data s1. download env video_id video_data s1 = (Inr result, snd y))"
          using d by (metis prod.collapse)
        ultimately show ?thesis by blast
      qed
    qed
  qed
qed

section \<open>The creation request\<close>

lemma create_video_posts:
  assumes "OPENAI_API_KEY env = Some key" and "key \<noteq> []"
  shows "trace (snd (create_video env request s)) =
           trace s @ [(now s, Post (OPENAI_API_BASE @ ''/videos'')
                        [(''Authorization'', bearer env), (''Content-Type'', ''application/json'')]
                        (payload_of request))]"
  using assms
  by (auto simp: create_video_def client_post_def
      split: prod.splits reply.splits option.splits json.splits)

lemma generate_video_trace:
  assumes "generate_video env request s = Some (r, s')"
  shows "\<exists>rest. trace s' = trace (snd (create_video env request s)) @ rest"
proof (cases "create_video env request s")
  case (Pair a s1)
  show ?thesis
  proof (cases a)
    case (Inl e)
    with Pair assms show ?thesis by (simp add: generate_video_def)
  next
    case (Inr video_id)
    with Pair assms obtain r2 where
      fin: "finish_video env video_id s1 = Some (r2, s')"
      by (auto simp: generate_video_def split: option.splits)
    then obtain y where w: "wait_loop env (py_format env video_id) (now s1) 600 s1 = Some y" "snd y = s'"
      by (auto simp: finish_video_def wait_for_video_completion_def
          split: option.splits prod.splits sum.splits if_splits)
    from wait_loop_result[OF w(1)] w(2) Pair show ?thesis by auto
  qed
qed

lemma str_int_supported: "str_int 4 = ''4''" "str_int 8 = ''8''" "str_int 12 = ''12''"
  by (simp_all add: str_int_def digits.simps)

section \<open>A first iteration of the example\<close>

lemma example_pending_step:
  "job 0 = [(''status'', JStr ''queued'')] \<Longrightarrow>
   pending_steps (example_env job) ''video_1'' (now example_world) 600 (Suc 0) example_world =
     Some \<lparr>now = 1 / 2 + 61 / 60, polls = 1,
        trace = [(0, Get (status_url ''video_1'') (auth_headers (example_env job))),
                 (1 / 2, Sleep (61 / 60))],
        files = example_files, cwd = [''app'']\<rparr>"
  by (simp add: example_env_def example_world_def json_reply_def pending_def dict_get_def
      asyncio_sleep_def check_status_def client_get_def)

section \<open>Paths of the example\<close>

lemma example_paths:
  "path_str (joinpath VIDEOS_DIR ''video_1.mp4'') = ''videos/video_1.mp4''"
  "path_str (joinpath VIDEOS_DIR ''.'') = ''videos''"
  "path_str (joinpath VIDEOS_DIR ''..'') = ''videos/..''"
  "path_str (joinpath VIDEOS_DIR ''../main.py'') = ''videos/../main.py''"
  "path_str (joinpath VIDEOS_DIR ''missing.mp4'') = ''videos/missing.mp4''"
  by (simp_all add: path_str_def joinpath_def VIDEOS_DIR_def Path_def parse_root_def
      split_slash_def Let_def)

lemma example_stat:
  "os_stat example_world ''videos'' = Inr Dir"
  "os_stat example_world ''videos/..'' = Inr Dir"
  "os_stat example_world ''videos/../main.py'' = Inr (File ''import os'')"
  "os_stat example_world ''videos/missing.mp4'' = Inl (OSError ENOENT)"
  by (simp_all add: os_stat_def start_dir_def split_slash_def example_world_def example_files_def
      NAME_MAX_def PATH_MAX_def)









section \<open>A run of the example that downloads\<close>

lemma download_succeeds:
  assumes "fst (http_stream env (content_url video_id)) = StreamResponse cr"
    and "stream_status cr = 200" and "stream_failure cr = None"
    and "fst (open_wb (snd (client_stream env (content_url video_id) (auth_headers env) s))
               (path_str (joinpath VIDEOS_DIR (video_id @ ''.mp4'')))) = Inr f"
  shows "\<exists>result s'. download env video_id video_data s = (Inr result, s')"
  using assms
  by (auto simp: download_def Let_def client_stream_def split: prod.splits sum.splits)

lemma example_open_wb:
  "files s = example_files \<Longrightarrow> cwd s = [''app''] \<Longrightarrow>
   fst (open_wb s ''videos/video_1.mp4'') = Inr [''app'', ''videos'', ''video_1.mp4'']"
  by (simp add: open_wb_def start_dir_def split_slash_def example_files_def Let_def
      NAME_MAX_def PATH_MAX_def)

lemma example_run:
  assumes "job 0 = [(''status'', JStr ''queued'')]" and "job (Suc 0) = completed_job"
  shows "\<exists>result s'. wait_for_video_completion (example_env job) ''video_1'' 600 example_world =
           Some (Inr result, s')"
proof -
  let ?env = "example_env job"
  let ?sn = "\<lparr>now = 1 / 2 + 61 / 60, polls = 1,
        trace = [(0, Get (status_url ''video_1'') (auth_headers ?env)), (1 / 2, Sleep (61 / 60))],
        files = example_files, cwd = [''app'']\<rparr>"
  let ?s1 = "snd (check_status ?env ''video_1'' ?sn)"
  have a: "pending_steps ?env ''video_1'' (now example_world) 600 (Suc 0) example_world = Some ?sn"
    using assms(1) by (rule example_pending_step[of job])
  have b: "now ?sn - now example_world < real_of_int 600"
    by (simp add: example_world_def)
  have c: "fst (check_status ?env ''video_1'' ?sn) =
      Response \<lparr>status_code = 200, body_text = [], body_json = Some (JObj completed_job)\<rparr>"
    by (simp add: check_status_fst example_env_def json_reply_def assms(2))
  have d: "dict_get completed_job ''status'' JNull = JStr ''completed''"
    by (simp add: completed_job_def dict_get_def)
  have run: "wait_for_video_completion ?env ''video_1'' 600 example_world =
      Some (download ?env ''video_1'' completed_job ?s1)"
    unfolding wait_for_video_completion_def
    by (simp only: pending_steps_loop[OF a])
       (rule wait_loop_completed[OF b c _ _ d], simp_all)
  have "fst (open_wb (snd (client_stream ?env (content_url ''video_1'') (auth_headers ?env) ?s1))
               (path_str (joinpath VIDEOS_DIR (''video_1'' @ ''.mp4'')))) =
        Inr [''app'', ''videos'', ''video_1.mp4'']"
    using example_paths(1)
    by (simp add: example_open_wb client_stream_def check_status_snd)
  from download_succeeds[OF _ _ _ this, of "\<lparr>stream_status = 200, chunks = [''abc'', [], ''de''],
        stream_failure = None\<rparr>" completed_job]
  obtain result s' where "download ?env ''video_1'' completed_job ?s1 = (Inr result, s')"
    by (auto simp: example_env_def)
  with run show ?thesis by simp
qed

section \<open>The claims\<close>



text \<open>
  Claim C2. Let the budget be \<open>max_wait \<ge> 0\<close> seconds and let every status request
  the call can send within it (there are at most \<open>max_wait\<close>, an iteration takes a
  second or more) be answered with status 200 and a job that is neither completed nor
  failed, after a time between 0 and \<open>L\<close>. Then the call returns, with
  \<open>HTTPException 408\<close>; the clock has then advanced by the budget or more, and by less
  than the budget plus one reply time plus one sleep (\<open>L + 5\<close>). No content request
  was sent and no file was touched.
\<close>

theorem pending_job_times_out:
  assumes "0 \<le> max_wait" and "0 \<le> L"
    and "\<forall>i<nat max_wait.
           pending (fst (http_get env (status_url video_id) (polls s + i)))
           \<and> 0 \<le> snd (http_get env (status_url video_id) (polls s + i))
           \<and> snd (http_get env (status_url video_id) (polls s + i)) \<le> L"
  shows "\<exists>s'. wait_for_video_completion env video_id max_wait s =
                 Some (Inl (HTTPException 408 ''Video generation timeout''), s')
           \<and> real_of_int max_wait \<le> now s' - now s
           \<and> now s' - now s < real_of_int max_wait + L + 5
           \<and> (\<forall>e\<in>set (drop (length (trace s)) (trace s')). \<not> is_stream (snd e))
           \<and> files s' = files s"
proof -
  have b: "now s - now s < real_of_int max_wait + L + 5" using assms(1,2) by simp
  have a: "\<forall>i. polls s \<le> i \<and> i < polls s + nat \<lceil>real_of_int max_wait - (now s - now s)\<rceil> \<longrightarrow>
             pending (fst (http_get env (status_url video_id) i))
             \<and> 0 \<le> snd (http_get env (status_url video_id) i)
             \<and> snd (http_get env (status_url video_id) i) \<le> L"
  proof (intro allI impI)
    fix i
    assume "polls s \<le> i \<and> i < polls s + nat \<lceil>real_of_int max_wait - (now s - now s)\<rceil>"
    then have "i - polls s < nat max_wait" "polls s + (i - polls s) = i" by auto
    with assms(3) show "pending (fst (http_get env (status_url video_id) i))
             \<and> 0 \<le> snd (http_get env (status_url video_id) i)
             \<and> snd (http_get env (status_url video_id) i) \<le> L"
      by metis
  qed
  from wait_loop_times_out[OF a order_refl b]
  obtain s' evs where "wait_loop env video_id (now s) max_wait s =
             Some (Inl (HTTPException 408 ''Video generation timeout''), s')"
           "real_of_int max_wait \<le> now s' - now s"
           "now s' - now s < real_of_int max_wait + L + 5"
           "trace s' = trace s @ evs" "\<forall>e\<in>set evs. \<not> is_stream (snd e)"
           "files s' = files s"
    by blast
  then show ?thesis
    by (auto simp: wait_for_video_completion_def)
qed

theorem pending_job_times_out_witness:
  "\<exists>s'. wait_for_video_completion (example_env queued) ''video_1'' 600 example_world =
           Some (Inl (HTTPException 408 ''Video generation timeout''), s')
       \<and> 600 \<le> now s' \<and> now s' < 600 + 1 / 2 + 5"
proof -
  have a: "(0::int) \<le> 600" and l: "(0::real) \<le> 1 / 2" by simp_all
  have b: "\<forall>i<nat 600.
      pending (fst (http_get (example_env queued) (status_url ''video_1'') (polls example_world + i)))
      \<and> 0 \<le> snd (http_get (example_env queued) (status_url ''video_1'') (polls example_world + i))
      \<and> snd (http_get (example_env queued) (status_url ''video_1'') (polls example_world + i)) \<le> 1 / 2"
    by (simp add: example_env_def queued_def json_reply_def pending_def dict_get_def)
  from pending_job_times_out[OF a l b] obtain s' where
    "wait_for_video_completion (example_env queued) ''video_1'' 600 example_world =
       Some (Inl (HTTPException 408 ''Video generation timeout''), s')"
    "real_of_int 600 \<le> now s' - now example_world"
    "now s' - now example_world < real_of_int 600 + 1 / 2 + 5"
    by blast
  then have "wait_for_video_completion (example_env queued) ''video_1'' 600 example_world =
       Some (Inl (HTTPException 408 ''Video generation timeout''), s')
       \<and> 600 \<le> now s' \<and> now s' < 600 + 1 / 2 + 5"
    by (simp add: example_world_def)
  then show ?thesis ..
qed

text \<open>
  Claim C3. Let the loop have gone through \<open>n\<close> iterations that found the job
  pending, let the budget not be used up, and let the next status reply be status 200
  with a job whose status is \<^verbatim>\<open>failed\<close> and whose error object carries the message
  \<open>M\<close>. Then the call returns \<open>HTTPException 500\<close> whose detail is
  \<^verbatim>\<open>Video generation failed: \<close> followed by \<open>M\<close>; among the events of the call
  there is no content request, the failing status request was the last one, and no file
  was touched.
\<close>

theorem failed_job_fails_without_download:
  assumes "pending_steps env video_id (now s) max_wait n s = Some sn"
    and "now sn - now s < real_of_int max_wait"
    and "fst (http_get env (status_url video_id) (polls sn)) = Response r"
    and "status_code r = 200" and "body_json r = Some (JObj video_data)"
    and "map_of video_data ''status'' = Some (JStr ''failed'')"
    and "map_of video_data ''error'' = Some (JObj e)"
    and "map_of e ''message'' = Some (JStr M)"
  shows "\<exists>s'. wait_for_video_completion env video_id max_wait s =
                 Some (Inl (HTTPException 500 (''Video generation failed: '' @ M)), s')
           \<and> (\<forall>ev\<in>set (drop (length (trace s)) (trace s')). \<not> is_stream (snd ev))
           \<and> polls s' = polls s + n + 1
           \<and> files s' = files s"
proof -
  let ?s' = "snd (check_status env video_id sn)"
  have st: "dict_get video_data ''status'' JNull = JStr ''failed''"
    using assms(6) by (simp add: dict_get_def)
  have fe: "failed_error env video_data = HTTPException 500 (''Video generation failed: '' @ M)"
    using assms(7,8) by (simp add: failed_error_def dict_get_def py_format_def)
  have "wait_for_video_completion env video_id max_wait s =
      wait_loop env video_id (now s) max_wait sn"
    unfolding wait_for_video_completion_def by (rule pending_steps_loop[OF assms(1)])
  also have "\<dots> = Some (Inl (failed_error env video_data), ?s')"
    by (rule wait_loop_failed[OF assms(2) _ assms(4,5) st]) (simp add: check_status_fst assms(3))
  finally have run: "wait_for_video_completion env video_id max_wait s =
      Some (Inl (HTTPException 500 (''Video generation failed: '' @ M)), ?s')"
    by (simp only: fe)
  from pending_steps_state[OF assms(1)] obtain evs where
    a: "polls sn = polls s + n" "files sn = files s"
       "trace sn = trace s @ evs" "\<forall>e\<in>set evs. \<not> is_stream (snd e)"
    by blast
  have "trace ?s' = trace s @ (evs @ [(now sn, Get (status_url video_id) (auth_headers env))])"
    using a(3) by (simp add: check_status_snd)
  then have "\<forall>ev\<in>set (drop (length (trace s)) (trace ?s')). \<not> is_stream (snd ev)"
    using a(4) by simp
  moreover have "polls ?s' = polls s + n + 1" "files ?s' = files s"
    using a(1,2) by (simp_all add: check_status_snd)
  ultimately show ?thesis using run by blast
qed

theorem failed_job_witness:
  "\<exists>s'. wait_for_video_completion (example_env (queued_then failed_job)) ''video_1'' 600 example_world =
           Some (Inl (HTTPException 500 ''Video generation failed: moderation blocked''), s')
       \<and> polls s' = 2 \<and> files s' = example_files"
proof -
  let ?env = "example_env (queued_then failed_job)"
  let ?sn = "\<lparr>now = 1 / 2 + 61 / 60, polls = 1,
        trace = [(0, Get (status_url ''video_1'') (auth_headers ?env)), (1 / 2, Sleep (61 / 60))],
        files = example_files, cwd = [''app'']\<rparr>"
  have a: "pending_steps ?env ''video_1'' (now example_world) 600 (Suc 0) example_world = Some ?sn"
    by (rule example_pending_step) (simp add: queued_then_def)
  have b: "now ?sn - now example_world < real_of_int 600"
    by (simp add: example_world_def)
  have c: "fst (http_get ?env (status_url ''video_1'') (polls ?sn)) =
      Response \<lparr>status_code = 200, body_text = [], body_json = Some (JObj failed_job)\<rparr>"
    by (simp add: example_env_def json_reply_def queued_then_def)
  from failed_job_fails_without_download[OF a b c, of failed_job
         "[(''message'', JStr ''moderation blocked'')]" "''moderation blocked''"]
  obtain s' where "wait_for_video_completion ?env ''video_1'' 600 example_world =
           Some (Inl (HTTPException 500 (''Video generation failed: '' @ ''moderation blocked'')), s')"
       "polls s' = polls example_world + Suc 0 + 1" "files s' = files example_world"
    by (auto simp: failed_job_def)
  then have "wait_for_video_completion ?env ''video_1'' 600 example_world =
           Some (Inl (HTTPException 500 ''Video generation failed: moderation blocked''), s')
       \<and> polls s' = 2 \<and> files s' = example_files"
    by (simp add: example_world_def)
  then show ?thesis ..
qed

text \<open>
  Claim C4. Let the loop have gone through \<open>n\<close> iterations that found the job
  pending (for the sequence \<^verbatim>\<open>queued\<close>, \<^verbatim>\<open>completed\<close> of the claim, \<open>n = 1\<close>),
  let the budget not be used up, and let the next status reply be status 200 with a job
  whose status is \<^verbatim>\<open>completed\<close>. Then the call returns what the download returns.
  Its events are the \<open>2 * n\<close> requests and sleeps of the pending iterations, none of
  them a content request, then the status request that saw the completion and, right
  after it and last, the content request: \<open>n + 1\<close> status requests were sent, one at
  least, and none after the completion was seen.
\<close>

theorem completed_job_downloads_at_once:
  assumes "pending_steps env video_id (now s) max_wait n s = Some sn"
    and "now sn - now s < real_of_int max_wait"
    and "fst (http_get env (status_url video_id) (polls sn)) = Response r"
    and "status_code r = 200" and "body_json r = Some (JObj video_data)"
    and "map_of video_data ''status'' = Some (JStr ''completed'')"
  shows "\<exists>res s' evs.
           wait_for_video_completion env video_id max_wait s = Some (res, s')
         \<and> (res, s') = download env video_id video_data (snd (check_status env video_id sn))
         \<and> trace s' = trace s @ evs @
             [(now sn, Get (status_url video_id) (auth_headers env)),
              (now sn + snd (http_get env (status_url video_id) (polls sn)),
               Stream (content_url video_id) (auth_headers env))]
         \<and> length evs = 2 * n
         \<and> (\<forall>ev\<in>set evs. \<not> is_stream (snd ev))
         \<and> polls s' = polls s + n + 1"
proof -
  let ?s1 = "snd (check_status env video_id sn)"
  have st: "dict_get video_data ''status'' JNull = JStr ''completed''"
    using assms(6) by (simp add: dict_get_def)
  have "wait_for_video_completion env video_id max_wait s =
      wait_loop env video_id (now s) max_wait sn"
    unfolding wait_for_video_completion_def by (rule pending_steps_loop[OF assms(1)])
  also have "\<dots> = Some (download env video_id video_data ?s1)"
    by (rule wait_loop_completed[OF assms(2) _ assms(4,5) st]) (simp add: check_status_fst assms(3))
  finally have run: "wait_for_video_completion env video_id max_wait s =
      Some (download env video_id video_data ?s1)" .
  from pending_steps_state[OF assms(1)] obtain evs where
    a: "polls sn = polls s + n" "trace sn = trace s @ evs" "\<forall>e\<in>set evs. \<not> is_stream (snd e)"
       "length evs = 2 * n"
    by blast
  obtain res s' where d: "download env video_id video_data ?s1 = (res, s')"
    by (cases "download env video_id video_data ?s1")
  have f: "polls s' = polls ?s1"
    "trace s' = trace ?s1 @ [(now ?s1, Stream (content_url video_id) (auth_headers env))]"
    using download_frame[of env video_id video_data ?s1] d by simp_all
  have "trace s' = trace s @ evs @
             [(now sn, Get (status_url video_id) (auth_headers env)),
              (now sn + snd (http_get env (status_url video_id) (polls sn)),
               Stream (content_url video_id) (auth_headers env))]"
    using f(2) a(2) by (simp add: check_status_snd)
  moreover have "polls s' = polls s + n + 1"
    using f(1) a(1) by (simp add: check_status_snd)
  ultimately show ?thesis using run d a(3,4) by auto
qed

theorem completed_job_witness:
  "\<exists>res s' evs.
     wait_for_video_completion (example_env (queued_then completed_job)) ''video_1'' 600 example_world =
       Some (res, s')
     \<and> trace s' = evs @
         [(1 / 2 + 61 / 60,
           Get ''https://api.openai.com/v1/videos/video_1'' [(''Authorization'', ''Bearer sk-test'')]),
          (1 / 2 + 61 / 60 + 1 / 2,
           Stream ''https://api.openai.com/v1/videos/video_1/content''
             [(''Authorization'', ''Bearer sk-test'')])]
     \<and> length evs = 2 \<and> polls s' = 2"
proof -
  let ?env = "example_env (queued_then completed_job)"
  let ?sn = "\<lparr>now = 1 / 2 + 61 / 60, polls = 1,
        trace = [(0, Get (status_url ''video_1'') (auth_headers ?env)), (1 / 2, Sleep (61 / 60))],
        files = example_files, cwd = [''app'']\<rparr>"
  have a: "pending_steps ?env ''video_1'' (now example_world) 600 (Suc 0) example_world = Some ?sn"
    by (rule example_pending_step) (simp add: queued_then_def)
  have b: "now ?sn - now example_world < real_of_int 600"
    by (simp add: example_world_def)
  have c: "fst (http_get ?env (status_url ''video_1'') (polls ?sn)) =
      Response \<lparr>status_code = 200, body_text = [], body_json = Some (JObj completed_job)\<rparr>"
    by (simp add: example_env_def json_reply_def queued_then_def)
  from completed_job_downloads_at_once[OF a b c, of completed_job]
  obtain res s' evs where
    "wait_for_video_completion ?env ''video_1'' 600 example_world = Some (res, s')"
    "trace s' = trace example_world @ evs @
             [(now ?sn, Get (status_url ''video_1'') (auth_headers ?env)),
              (now ?sn + snd (http_get ?env (status_url ''video_1'') (polls ?sn)),
               Stream (content_url ''video_1'') (auth_headers ?env))]"
    "length evs = 2 * Suc 0" "polls s' = polls example_world + Suc 0 + 1"
    by (auto simp: completed_job_def)
  then have "wait_for_video_completion ?env ''video_1'' 600 example_world = Some (res, s')
     \<and> trace s' = evs @
         [(1 / 2 + 61 / 60,
           Get ''https://api.openai.com/v1/videos/video_1'' [(''Authorization'', ''Bearer sk-test'')]),
          (1 / 2 + 61 / 60 + 1 / 2,
           Stream ''https://api.openai.com/v1/videos/video_1/content''
             [(''Authorization'', ''Bearer sk-test'')])]
     \<and> length evs = 2 \<and> polls s' = 2"
    by (simp add: example_world_def example_env_def json_reply_def status_url_def content_url_def
        auth_headers_def bearer_def OPENAI_API_BASE_def)
  then show ?thesis by blast
qed

text \<open>
  Claim C5. With a credential configured and a supported duration (4, 8 or 12), the
  creation request is the one event of the handler's first half, and its payload holds
  exactly the request's model, prompt and size and, under \<^verbatim>\<open>seconds\<close>, the duration
  as a decimal string. The size is passed on as it is, supported or not. Whatever
  \<open>generate_video\<close> returns, its events start with this request.
\<close>

theorem supported_request_payload:
  assumes "OPENAI_API_KEY env = Some key" and "key \<noteq> []"
    and "duration request \<in> supported_durations"
  shows "trace (snd (create_video env request s)) =
           trace s @ [(now s, Post (OPENAI_API_BASE @ ''/videos'')
                        [(''Authorization'', bearer env), (''Content-Type'', ''application/json'')]
                        [(''model'', model request), (''prompt'', prompt request),
                         (''size'', size_field request),
                         (''seconds'', str_int (duration request))])]
         \<and> str_int (duration request) =
             (if duration request = 4 then ''4'' else if duration request = 8 then ''8'' else ''12'')
         \<and> (\<forall>r s'. generate_video env request s = Some (r, s') \<longrightarrow>
               (\<exists>rest. trace s' = trace (snd (create_video env request s)) @ rest))"
proof -
  have nz: "duration request \<noteq> 0"
    using assms(3) by (auto simp: supported_durations_def)
  have p: "payload_of request =
      [(''model'', model request), (''prompt'', prompt request), (''size'', size_field request),
       (''seconds'', str_int (duration request))]"
    using nz by (simp add: payload_of_def)
  have a: "trace (snd (create_video env request s)) =
           trace s @ [(now s, Post (OPENAI_API_BASE @ ''/videos'')
                        [(''Authorization'', bearer env), (''Content-Type'', ''application/json'')]
                        [(''model'', model request), (''prompt'', prompt request),
                         (''size'', size_field request),
                         (''seconds'', str_int (duration request))])]"
    using create_video_posts[OF assms(1,2), of request s] by (simp only: p)
  have b: "str_int (duration request) =
      (if duration request = 4 then ''4'' else if duration request = 8 then ''8'' else ''12'')"
    using assms(3) by (auto simp: supported_durations_def str_int_supported)
  have c: "\<forall>r s'. generate_video env request s = Some (r, s') \<longrightarrow>
               (\<exists>rest. trace s' = trace (snd (create_video env request s)) @ rest)"
    using generate_video_trace by blast
  from a b c show ?thesis by (intro conjI)
qed

theorem supported_request_payload_witness:
  "trace (snd (create_video (example_env queued) example_request example_world)) =
     [(0, Post ''https://api.openai.com/v1/videos''
            [(''Authorization'', ''Bearer sk-test''), (''Content-Type'', ''application/json'')]
            [(''model'', ''sora-2''), (''prompt'', ''a cat''), (''size'', ''720x1280''),
             (''seconds'', ''8'')])]"
  using supported_request_payload[of "example_env queued" "''sk-test''" example_request example_world]
  by (simp add: example_env_def example_request_def example_world_def supported_durations_def
      OPENAI_API_BASE_def bearer_def)

text \<open>
  Claim C6. Whenever \<open>wait_for_video_completion\<close> returns the job's data (the download
  was completed), the file \<^verbatim>\<open>videos/<video_id>.mp4\<close> holds the concatenation of the
  streamed chunks, so its length is the sum of their lengths; the returned data names
  this file under \<^verbatim>\<open>video_filename\<close>; and in the state the call ends in,
  \<open>serve_video\<close> for that file name returns a \<^verbatim>\<open>FileResponse\<close> of that path, which
  the endpoint answers with exactly these bytes and the type \<^verbatim>\<open>video/mp4\<close>.
\<close>

theorem download_writes_what_is_served:
  assumes "wait_for_video_completion env video_id max_wait s = Some (Inr result, s')"
  shows "\<exists>content_response lat.
      http_stream env (content_url video_id) = (StreamResponse content_response, lat)
    \<and> os_stat s' (path_str (joinpath VIDEOS_DIR (video_id @ ''.mp4''))) =
        Inr (File (concat (chunks content_response)))
    \<and> length (concat (chunks content_response)) = sum_list (map length (chunks content_response))
    \<and> dict_get result ''video_filename'' JNull = JStr (video_id @ ''.mp4'')
    \<and> serve_video s' (video_id @ ''.mp4'') =
        Inr \<lparr>path = path_str (joinpath VIDEOS_DIR (video_id @ ''.mp4'')),
             media_type = ''video/mp4'', filename = video_id @ ''.mp4''\<rparr>
    \<and> get_videos s' (video_id @ ''.mp4'') =
        Body 200 (concat (chunks content_response)) ''video/mp4''"
proof -
  let ?p = "path_str (joinpath VIDEOS_DIR (video_id @ ''.mp4''))"
  from assms have "wait_loop env video_id (now s) max_wait s = Some (Inr result, s')"
    by (simp add: wait_for_video_completion_def)
  from wait_loop_result[OF this] obtain video_data s1 where
    "download env video_id video_data s1 = (Inr result, s')"
    by auto
  from download_success[OF this] obtain cr lat where
    d: "http_stream env (content_url video_id) = (StreamResponse cr, lat)"
       "os_stat s' ?p = Inr (File (concat (chunks cr)))"
       "result = AList.update ''video_filename'' (JStr (video_id @ ''.mp4''))
                 (AList.update ''local_path'' (JStr ?p) video_data)"
    by blast
  have name: "dict_get result ''video_filename'' JNull = JStr (video_id @ ''.mp4'')"
    by (simp add: d(3) dict_get_def update_conv')
  have sv: "serve_video s' (video_id @ ''.mp4'') =
        Inr \<lparr>path = ?p, media_type = ''video/mp4'', filename = video_id @ ''.mp4''\<rparr>"
    using d(2) by (simp add: serve_video_def path_exists_def Let_def)
  have gv: "get_videos s' (video_id @ ''.mp4'') = Body 200 (concat (chunks cr)) ''video/mp4''"
    using d(2) by (simp add: get_videos_def sv send_file_def)
  show ?thesis
    using d(1,2) name sv gv by (simp add: length_concat)
qed

theorem download_witness:
  "\<exists>result s'.
     wait_for_video_completion (example_env (queued_then completed_job)) ''video_1'' 600 example_world =
       Some (Inr result, s')
     \<and> os_stat s' ''videos/video_1.mp4'' = Inr (File ''abcde'')
     \<and> get_videos s' ''video_1.mp4'' = Body 200 ''abcde'' ''video/mp4''"
proof -
  let ?env = "example_env (queued_then completed_job)"
  from example_run[of "queued_then completed_job"] obtain result s' where
    run: "wait_for_video_completion ?env ''video_1'' 600 example_world = Some (Inr result, s')"
    by (auto simp: queued_then_def)
  from download_writes_what_is_served[OF run] obtain cr lat where
    "http_stream ?env (content_url ''video_1'') = (StreamResponse cr, lat)"
    "os_stat s' (path_str (joinpath VIDEOS_DIR (''video_1'' @ ''.mp4''))) =
        Inr (File (concat (chunks cr)))"
    "get_videos s' (''video_1'' @ ''.mp4'') = Body 200 (concat (chunks cr)) ''video/mp4''"
    by blast
  then have "os_stat s' ''videos/video_1.mp4'' = Inr (File ''abcde'')
     \<and> get_videos s' ''video_1.mp4'' = Body 200 ''abcde'' ''video/mp4''"
    using example_paths(1) by (auto simp: example_env_def)
  with run show ?thesis by blast
qed

text \<open>
  Claim C7. When the credential is not configured (the variable is unset or empty), every
  call of \<open>generate_video\<close> fails with status 500 and the configuration message, and the
  state is the one it started in: no request was sent and the clock did not move.
\<close>

theorem missing_credential_fails_before_any_request:
  assumes "OPENAI_API_KEY env = None \<or> OPENAI_API_KEY env = Some []"
  shows "generate_video env request s =
           Some (Inl (HTTPException 500 ''OPENAI_API_KEY not configured. Please set it in .env file''), s)"
  using assms by (auto simp: generate_video_def create_video_def except_clause_def)

theorem missing_credential_witness:
  "generate_video ((example_env queued)\<lparr>OPENAI_API_KEY := None\<rparr>) example_request example_world =
     Some (Inl (HTTPException 500 ''OPENAI_API_KEY not configured. Please set it in .env file''),
           example_world)
   \<and> trace example_world = []"
  using missing_credential_fails_before_any_request
          [of "(example_env queued)\<lparr>OPENAI_API_KEY := None\<rparr>" example_request example_world]
  by (simp add: example_world_def)

text \<open>
  Claim C8, at the file names \<^verbatim>\<open>.\<close> and \<^verbatim>\<open>..\<close>. Neither names a file in the
  videos directory, yet the existence check of line 227 passes (the path is the
  directory itself, or its parent), no 404 is raised, and the request ends as a server
  error when the framework finds that the path is not a regular file. A name whose path
  has no entry gets the 404.
\<close>

theorem serve_video_directory_names:
  "os_stat example_world ''videos'' = Inr Dir
   \<and> serve_video example_world ''.'' =
       Inr \<lparr>path = ''videos'', media_type = ''video/mp4'', filename = ''.''\<rparr>
   \<and> get_videos example_world ''.'' = Error 500
   \<and> get_videos example_world ''..'' = Error 500
   \<and> get_videos example_world ''missing.mp4'' = Error 404"
  by (simp add: get_videos_def send_file_def serve_video_def path_exists_def Let_def
      example_paths example_stat)




text \<open>
  Claim C10. The payload of the creation request has the key \<^verbatim>\<open>seconds\<close> exactly
  when the duration is not zero: a duration of 0 gives the three other keys alone, any
  other duration adds its decimal string.
\<close>

theorem falsy_duration_omits_seconds:
  assumes "OPENAI_API_KEY env = Some key" and "key \<noteq> []"
  shows "trace (snd (create_video env request s)) =
           trace s @ [(now s, Post (OPENAI_API_BASE @ ''/videos'')
                        [(''Authorization'', bearer env), (''Content-Type'', ''application/json'')]
                        (payload_of request))]
         \<and> (map_of (payload_of request) ''seconds'' = None) = (duration request = 0)
         \<and> (duration request = 0 \<longrightarrow>
              payload_of request =
                [(''model'', model request), (''prompt'', prompt request),
                 (''size'', size_field request)])
         \<and> (duration request \<noteq> 0 \<longrightarrow>
              map_of (payload_of request) ''seconds'' = Some (str_int (duration request)))"
proof -
  have p: "payload_of request =
      (if duration request = 0
       then [(''model'', model request), (''prompt'', prompt request), (''size'', size_field request)]
       else [(''model'', model request), (''prompt'', prompt request), (''size'', size_field request),
             (''seconds'', str_int (duration request))])"
    by (simp add: payload_of_def)
  have "(map_of (payload_of request) ''seconds'' = None) = (duration request = 0)"
    by (simp add: p)
  moreover have "duration request = 0 \<longrightarrow>
      payload_of request =
        [(''model'', model request), (''prompt'', prompt request), (''size'', size_field request)]"
    by (simp add: p)
  moreover have "duration request \<noteq> 0 \<longrightarrow>
      map_of (payload_of request) ''seconds'' = Some (str_int (duration request))"
    by (simp add: p)
  ultimately show ?thesis
    using create_video_posts[OF assms, of request s] by (intro conjI)
qed

theorem falsy_duration_witness:
  "trace (snd (create_video (example_env queued) (example_request\<lparr>duration := 0\<rparr>) example_world)) =
     [(0, Post ''https://api.openai.com/v1/videos''
            [(''Authorization'', ''Bearer sk-test''), (''Content-Type'', ''application/json'')]
            [(''model'', ''sora-2''), (''prompt'', ''a cat''), (''size'', ''720x1280'')])]"
  using falsy_duration_omits_seconds
          [of "example_env queued" "''sk-test''" "example_request\<lparr>duration := 0\<rparr>" example_world]
  by (simp add: example_env_def example_request_def example_world_def
      OPENAI_API_BASE_def bearer_def)

end
